theory Spec2Isabelle
  imports Main
begin

section \<open>The reaction store (stores/reactionStore)\<close>

text \<open>
  Modelled from the spec: the declarations \<open>ReactionType\<close> and \<open>ReactionCount\<close> of
  \<open>@/types\<close> are imported by the store but are not among the sources. The store compares
  a reaction's type with the literals \<open>'confused'\<close> and \<open>'more'\<close> and reads the fields
  \<open>confused\<close> and \<open>more\<close> of a count, and the spec gives \<open>Kind(confused|more)\<close>, so the
  type is the two-valued enumeration and the count is the record of the two scores.
  The field \<open>more\<close> is written \<open>more'\<close>, since \<open>more\<close> is reserved in records.
  JavaScript numbers are modelled as \<open>int\<close> (timestamps are milliseconds of \<open>Date.now()\<close>).
\<close>

datatype ReactionType = Confused | More

record ReactionCount =
  confused :: int
  more' :: int

record TimestampedReaction =
  rtype :: ReactionType
  timestamp :: int
  points :: int

record ReactionState =
  recentReactions :: ReactionCount
  intensity :: int
  dominantType :: "ReactionType option"
  glowActive :: bool
  reactions :: "TimestampedReaction list"

definition GLOW_THRESHOLD :: int where
  "GLOW_THRESHOLD = 5"

definition SLIDING_WINDOW_MS :: int where
  "SLIDING_WINDOW_MS = 30000"

text \<open>The initial state passed to \<open>create\<close>.\<close>

definition initialState :: ReactionState where
  "initialState =
     \<lparr> recentReactions = \<lparr> confused = 0, more' = 0 \<rparr>,
       intensity = 0,
       dominantType = None,
       glowActive = False,
       reactions = [] \<rparr>"

text \<open>
  \<open>xs.reduce((sum, r) => sum + r.points, 0)\<close>: a left-to-right loop over the array with
  the accumulator starting at 0.
\<close>

definition sumPoints :: "TimestampedReaction list \<Rightarrow> int" where
  "sumPoints xs = fold (\<lambda>r sum. sum + points r) xs 0"

text \<open>
  \<open>addReaction(type, isRapidClick)\<close>. The value of \<open>Date.now()\<close> read by the action is
  the parameter \<open>now\<close>. \<open>set\<close> merges the returned fields into the state; here all five
  fields are returned.
\<close>

definition addReaction :: "ReactionType \<Rightarrow> bool \<Rightarrow> int \<Rightarrow> ReactionState \<Rightarrow> ReactionState" where
  "addReaction ty isRapidClick now state =
     (let pts = (if isRapidClick then 2 else 1);
          newReactions =
            filter (\<lambda>r. now - timestamp r < SLIDING_WINDOW_MS) (reactions state)
              @ [\<lparr> rtype = ty, timestamp = now, points = pts \<rparr>];
          c = sumPoints (filter (\<lambda>r. rtype r = Confused) newReactions);
          m = sumPoints (filter (\<lambda>r. rtype r = More) newReactions);
          dominant =
            (if c \<ge> GLOW_THRESHOLD then Some Confused
             else if m \<ge> GLOW_THRESHOLD then Some More
             else None);
          glow = (c \<ge> GLOW_THRESHOLD \<or> m \<ge> GLOW_THRESHOLD);
          inten = (if glow then 100 else 0)
      in state\<lparr> reactions := newReactions,
                recentReactions := \<lparr> confused = c, more' = m \<rparr>,
                intensity := inten,
                dominantType := dominant,
                glowActive := glow \<rparr>)"

text \<open>
  \<open>setReactionsFromBackend(confused, more)\<close>: the returned object has no \<open>reactions\<close>
  field, so \<open>set\<close> leaves the event log as it is.
\<close>

definition setReactionsFromBackend :: "int \<Rightarrow> int \<Rightarrow> ReactionState \<Rightarrow> ReactionState" where
  "setReactionsFromBackend c m state =
     (let dominant =
            (if c \<ge> GLOW_THRESHOLD then Some Confused
             else if m \<ge> GLOW_THRESHOLD then Some More
             else None);
          glow = (c \<ge> GLOW_THRESHOLD \<or> m \<ge> GLOW_THRESHOLD)
      in state\<lparr> recentReactions := \<lparr> confused = c, more' = m \<rparr>,
                intensity := (if glow then 100 else 0),
                dominantType := dominant,
                glowActive := glow \<rparr>)"

text \<open>
  \<open>updateReactions(type, count, intensity)\<close>, the demo-mode action:
  \<open>{...state.recentReactions, [type]: count}\<close> overwrites the one named score.
\<close>

definition updateReactions :: "ReactionType \<Rightarrow> int \<Rightarrow> int \<Rightarrow> ReactionState \<Rightarrow> ReactionState" where
  "updateReactions ty count inten state =
     (let newReactions =
            (case ty of
               Confused \<Rightarrow> (recentReactions state)\<lparr> confused := count \<rparr>
             | More \<Rightarrow> (recentReactions state)\<lparr> more' := count \<rparr>);
          dominant =
            (if confused newReactions \<ge> GLOW_THRESHOLD then Some Confused
             else if more' newReactions \<ge> GLOW_THRESHOLD then Some More
             else None);
          glow = (confused newReactions \<ge> GLOW_THRESHOLD \<or> more' newReactions \<ge> GLOW_THRESHOLD)
      in state\<lparr> recentReactions := newReactions,
                intensity := (if glow then 100 else inten),
                dominantType := dominant,
                glowActive := glow \<rparr>)"

text \<open>\<open>resetReactions()\<close> sets all five fields.\<close>

definition resetReactions :: "ReactionState \<Rightarrow> ReactionState" where
  "resetReactions state =
     state\<lparr> recentReactions := \<lparr> confused = 0, more' = 0 \<rparr>,
            intensity := 0,
            dominantType := None,
            glowActive := False,
            reactions := [] \<rparr>"

text \<open>
  The states the store can be in when only \<open>addReaction\<close>, \<open>setReactionsFromBackend\<close> and
  \<open>resetReactions\<close> are called, with any arguments and any clock readings.
\<close>

inductive reachable :: "ReactionState \<Rightarrow> bool" where
  reach_init: "reachable initialState"
| reach_add: "reachable s \<Longrightarrow> reachable (addReaction ty isRapidClick now s)"
| reach_backend: "reachable s \<Longrightarrow> reachable (setReactionsFromBackend c m s)"
| reach_reset: "reachable s \<Longrightarrow> reachable (resetReactions s)"

section \<open>The audience page (pages/AudiencePage)\<close>

text \<open>
  Text typed by the user is a JavaScript string, modelled as the list of its UTF-16 code
  units. \<open>String.prototype.trim\<close> removes the ECMAScript white space and line terminator
  code units from both ends.
\<close>

type_synonym jsstring = "nat list"

definition isWhiteSpace :: "nat \<Rightarrow> bool" where
  "isWhiteSpace c =
     (c = 9 \<or> c = 10 \<or> c = 11 \<or> c = 12 \<or> c = 13 \<or> c = 32 \<or> c = 160 \<or> c = 5760
      \<or> (8192 \<le> c \<and> c \<le> 8202)
      \<or> c = 8232 \<or> c = 8233 \<or> c = 8239 \<or> c = 8287 \<or> c = 12288 \<or> c = 65279)"

definition trim :: "jsstring \<Rightarrow> jsstring" where
  "trim s = rev (dropWhile isWhiteSpace (rev (dropWhile isWhiteSpace s)))"

text \<open>\<open>Number.prototype.toString\<close> on an integer: its decimal digits, as code units.\<close>

function natToString :: "nat \<Rightarrow> jsstring" where
  "natToString n = (if n < 10 then [48 + n] else natToString (n div 10) @ [48 + n mod 10])"
  by pat_completeness auto
termination
  by (relation "measure id") auto

declare natToString.simps [simp del]

definition toString :: "int \<Rightarrow> jsstring" where
  "toString i = (if i < 0 then 45 # natToString (nat (- i)) else natToString (nat i))"

record SentQuestion =
  id' :: jsstring
  text' :: jsstring
  timestamp' :: int

text \<open>
  The component state that the two handlers read and write, and the calls of
  \<open>console.error\<close> they make (\<open>errorLog\<close>, oldest first).
\<close>

record AudienceState =
  question :: jsstring
  isSubmitting :: bool
  sentQuestions :: "SentQuestion list"
  clickTimestamps :: "int list"
  lastClickFeedback :: "string option"
  errorLog :: "string list"

text \<open>
  The text shown by \<open>setLastClickFeedback\<close> on a burst is a Korean literal in the source
  ("delivered strongly"); an ASCII rendering stands for it.
\<close>

definition strongFeedbackText :: string where
  "strongFeedbackText = ''strongly delivered''"

text \<open>The cleanup interval: every second, \<open>prev.filter(ts => now - ts < 5000)\<close>.\<close>

definition cleanupClickTimestamps :: "int \<Rightarrow> AudienceState \<Rightarrow> AudienceState" where
  "cleanupClickTimestamps now st =
     st\<lparr> clickTimestamps := filter (\<lambda>ts. now - ts < 5000) (clickTimestamps st) \<rparr>"

text \<open>
  What one run of \<open>handleReaction\<close> does besides updating the state: the value of
  \<open>isRapidClick\<close>, whether the strong feedback was shown (the call
  \<open>setLastClickFeedback\<close> of the burst branch), and the vibration pattern requested when
  \<open>navigator.vibrate\<close> exists.
\<close>

record ReactionOutcome =
  isRapidClick :: bool
  strongFeedback :: bool
  haptic :: "int list"

text \<open>
  \<open>handleReaction(type, e)\<close> up to the feedback, with \<open>Date.now()\<close> as \<open>now\<close>. The send to
  the backend that follows is wrapped in its own \<open>try\<close>/\<open>catch\<close>; \<open>sendFailed\<close> says
  whether it threw, in which case the error is logged and nothing else changes.
\<close>

definition handleReaction ::
  "ReactionType \<Rightarrow> int \<Rightarrow> bool \<Rightarrow> AudienceState \<Rightarrow> AudienceState \<times> ReactionOutcome" where
  "handleReaction ty now sendFailed st =
     (let recentClicks = filter (\<lambda>ts. now - ts < 5000) (clickTimestamps st);
          newClicks = recentClicks @ [now];
          st1 = st\<lparr> clickTimestamps := newClicks \<rparr>;
          rapid = (length newClicks \<ge> 5);
          vib = (if rapid then [100, 50, 100] else [50]);
          fire = (rapid \<and> length newClicks = 5);
          st2 = (if fire then st1\<lparr> lastClickFeedback := Some strongFeedbackText \<rparr> else st1);
          st3 = (if sendFailed
                 then st2\<lparr> errorLog := errorLog st2 @ [''Failed to send reaction:''] \<rparr>
                 else st2)
      in (st3, \<lparr> isRapidClick = rapid, strongFeedback = fire, haptic = vib \<rparr>))"

text \<open>The outcomes of a sequence of clicks at the given clock readings, in order.\<close>

fun clickOutcomes :: "ReactionType \<Rightarrow> int list \<Rightarrow> AudienceState \<Rightarrow> ReactionOutcome list" where
  "clickOutcomes ty [] st = []"
| "clickOutcomes ty (t # ts) st =
     (let (st', out) = handleReaction ty t False st in out # clickOutcomes ty ts st')"

definition initialAudienceState :: AudienceState where
  "initialAudienceState =
     \<lparr> question = [], isSubmitting = False, sentQuestions = [], clickTimestamps = [],
       lastClickFeedback = None, errorLog = [] \<rparr>"

subsection \<open>Submitting a question\<close>

text \<open>
  \<open>createQuestion\<close> of \<open>lib/api\<close>: \<open>fetch\<close> may reject; a response that is not \<open>ok\<close> throws
  \<open>'Failed to create question'\<close>; otherwise the result is \<open>response.json()\<close>, which may
  reject too. The outcome of the request is a parameter.
\<close>

datatype ApiError = FetchRejected | FailedToCreateQuestion | JsonRejected

record Question =
  questionId :: int
  content :: jsstring
  createdAt :: jsstring

datatype HttpResult = NoResponse | Response bool "Question option"

fun createQuestion :: "HttpResult \<Rightarrow> ApiError + Question" where
  "createQuestion NoResponse = Inl FetchRejected"
| "createQuestion (Response ok body) =
     (if \<not> ok then Inl FailedToCreateQuestion
      else case body of None \<Rightarrow> Inl JsonRejected | Some q \<Rightarrow> Inr q)"

text \<open>
  \<open>handleSubmitQuestion\<close> runs in two parts, before and after \<open>await createQuestion\<close>. The
  first part returns early on an empty trimmed text and otherwise sets \<open>isSubmitting\<close>; it
  yields the trimmed text, since the rest of the handler reads \<open>question\<close> from its
  closure. The second part runs on the state as it is when the request settles; the two
  readings of \<open>Date.now()\<close> for the record are \<open>idNow\<close> and \<open>tsNow\<close>.
\<close>

definition submitQuestionBegin :: "AudienceState \<Rightarrow> (jsstring \<times> AudienceState) option" where
  "submitQuestionBegin st =
     (if trim (question st) = [] then None
      else Some (trim (question st), st\<lparr> isSubmitting := True \<rparr>))"

definition submitQuestionSettle ::
  "ApiError + Question \<Rightarrow> jsstring \<Rightarrow> int \<Rightarrow> int \<Rightarrow> AudienceState \<Rightarrow> AudienceState" where
  "submitQuestionSettle result txt idNow tsNow st =
     (let newQuestion = \<lparr> id' = toString idNow, text' = txt, timestamp' = tsNow \<rparr>;
          st1 = (case result of
                   Inr _ \<Rightarrow>
                     st\<lparr> sentQuestions := newQuestion # sentQuestions st, question := [] \<rparr>
                 | Inl _ \<Rightarrow>
                     st\<lparr> errorLog := errorLog st @ [''Failed to send question:''],
                         sentQuestions := newQuestion # sentQuestions st,
                         question := [] \<rparr>)
      in st1\<lparr> isSubmitting := False \<rparr>)"

definition handleSubmitQuestion ::
  "HttpResult \<Rightarrow> int \<Rightarrow> int \<Rightarrow> AudienceState \<Rightarrow> AudienceState" where
  "handleSubmitQuestion http idNow tsNow st =
     (case submitQuestionBegin st of
        None \<Rightarrow> st
      | Some (txt, st1) \<Rightarrow> submitQuestionSettle (createQuestion http) txt idNow tsNow st1)"

section \<open>The live channel (hooks/useWebSocket)\<close>

subsection \<open>Inbound messages\<close>

text \<open>
  \<open>ReactionMessage\<close>: every field but \<open>sessionId\<close> is optional. \<open>None\<close> stands for a field
  that is absent or \<open>null\<close>, which \<open>?.\<close> and \<open>??\<close> treat alike.
\<close>

record ReactionCounts =
  CONFUSED :: "int option"
  MORE :: "int option"

record ReactionMessage =
  sessionId :: string
  reactionCounts :: "ReactionCounts option"
  confusedCount :: "int option"
  moreCount :: "int option"
  msgTimestamp :: "int option"

text \<open>\<open>a ?? b\<close> on an optional value and a default.\<close>

definition nullish :: "'a option \<Rightarrow> 'a \<Rightarrow> 'a" where
  "nullish a b = (case a of Some v \<Rightarrow> v | None \<Rightarrow> b)"

text \<open>\<open>data.reactionCounts?.CONFUSED\<close> and \<open>data.reactionCounts?.MORE\<close>.\<close>

definition optCONFUSED :: "ReactionMessage \<Rightarrow> int option" where
  "optCONFUSED data = (case reactionCounts data of None \<Rightarrow> None | Some rc \<Rightarrow> CONFUSED rc)"

definition optMORE :: "ReactionMessage \<Rightarrow> int option" where
  "optMORE data = (case reactionCounts data of None \<Rightarrow> None | Some rc \<Rightarrow> MORE rc)"

text \<open>
  The callback given to \<open>client.subscribe\<close>. \<open>JSON.parse\<close> is a parameter: it yields
  \<open>None\<close> where it throws (and for the body \<open>null\<close>, on which the first field access
  throws inside the same \<open>try\<close>). The state is the reaction store together with the
  calls of \<open>console.error\<close> made so far. The whole body of the callback is inside
  \<open>try\<close>, so the callback always returns.
\<close>

definition onReactionMessage ::
  "(string \<Rightarrow> ReactionMessage option) \<Rightarrow> string
     \<Rightarrow> ReactionState \<times> string list \<Rightarrow> ReactionState \<times> string list" where
  "onReactionMessage JSON_parse body = (\<lambda>(store, log).
     (case JSON_parse body of
        None \<Rightarrow> (store, log @ [''[WebSocket] Failed to parse message:''])
      | Some data \<Rightarrow>
          (let c = nullish (optCONFUSED data) (nullish (confusedCount data) 0);
               m = nullish (optMORE data) (nullish (moreCount data) 0)
           in (setReactionsFromBackend c m store, log))))"

text \<open>The subscription hands the bodies to the callback in the order of arrival.\<close>

definition deliver ::
  "(string \<Rightarrow> ReactionMessage option) \<Rightarrow> string list
     \<Rightarrow> ReactionState \<times> string list \<Rightarrow> ReactionState \<times> string list" where
  "deliver JSON_parse bodies st = fold (onReactionMessage JSON_parse) bodies st"

subsection \<open>Connection errors and the grace timer\<close>

text \<open>
  The STOMP client as far as the hook looks at it: its \<open>active\<close> and \<open>connected\<close> flags,
  which the library maintains.
\<close>

record StompClient =
  active :: bool
  connected :: bool

text \<open>
  The hook's refs and state. A pending grace timer is the value of \<open>errorTimeoutRef\<close>:
  the hook stores the timer there when it starts one, and every \<open>clearTimeout\<close> and the
  timer's own callback reset the ref to \<open>null\<close>. The model keeps the time at which the
  timer is due. \<open>errorsReported\<close> counts the calls of the \<open>onError\<close> callback.
\<close>

record HookState =
  clientRef :: "StompClient option"
  errorTimeoutRef :: "int option"
  isConnected :: bool
  connectionError :: "string option"
  errorsReported :: nat

definition initialHookState :: HookState where
  "initialHookState =
     \<lparr> clientRef = None, errorTimeoutRef = None, isConnected = False,
       connectionError = None, errorsReported = 0 \<rparr>"

text \<open>\<open>clientRef.current?.connected\<close> and \<open>clientRef.current?.active\<close>, as truth values.\<close>

definition refConnected :: "HookState \<Rightarrow> bool" where
  "refConnected st = (case clientRef st of None \<Rightarrow> False | Some c \<Rightarrow> connected c)"

definition refActive :: "HookState \<Rightarrow> bool" where
  "refActive st = (case clientRef st of None \<Rightarrow> False | Some c \<Rightarrow> active c)"

definition GRACE_MS :: int where
  "GRACE_MS = 10000"

text \<open>\<open>connect()\<close>: returns at once on an active client, otherwise clears a pending timer and activates a new client.\<close>

definition connect :: "HookState \<Rightarrow> HookState" where
  "connect st =
     (if refActive st then st
      else st\<lparr> errorTimeoutRef := None,
               clientRef := Some \<lparr> active = True, connected = False \<rparr> \<rparr>)"

text \<open>\<open>disconnect()\<close>, run on unmount.\<close>

definition disconnect :: "HookState \<Rightarrow> HookState" where
  "disconnect st =
     (let st1 = st\<lparr> errorTimeoutRef := None \<rparr>
      in case clientRef st1 of
           None \<Rightarrow> st1
         | Some _ \<Rightarrow> st1\<lparr> clientRef := None, isConnected := False \<rparr>)"

text \<open>
  The client's \<open>onConnect\<close> callback. The library has marked the client connected when it
  calls it.
\<close>

definition onConnect :: "HookState \<Rightarrow> HookState" where
  "onConnect st =
     st\<lparr> clientRef := map_option (\<lambda>c. c\<lparr> connected := True \<rparr>) (clientRef st),
         errorTimeoutRef := None,
         isConnected := True,
         connectionError := None \<rparr>"

text \<open>The socket closes: the library marks the client unconnected.\<close>

definition socketClosed :: "HookState \<Rightarrow> HookState" where
  "socketClosed st =
     st\<lparr> clientRef := map_option (\<lambda>c. c\<lparr> connected := False \<rparr>) (clientRef st) \<rparr>"

definition onDisconnect :: "HookState \<Rightarrow> HookState" where
  "onDisconnect st = st\<lparr> isConnected := False \<rparr>"

text \<open>\<open>onStompError(frame)\<close>, with \<open>frame.headers.message\<close> as an optional string.\<close>

definition onStompError :: "string option \<Rightarrow> HookState \<Rightarrow> HookState" where
  "onStompError msg st =
     st\<lparr> connectionError :=
           Some (case msg of None \<Rightarrow> ''Connection error''
                 | Some m \<Rightarrow> if m = [] then ''Connection error'' else m),
         errorsReported := Suc (errorsReported st) \<rparr>"

text \<open>\<open>onWebSocketError(event)\<close> at clock reading \<open>now\<close>: starts the timer, nothing else.\<close>

definition onWebSocketError :: "int \<Rightarrow> HookState \<Rightarrow> HookState" where
  "onWebSocketError now st =
     (if errorTimeoutRef st = None \<and> \<not> refConnected st
      then st\<lparr> errorTimeoutRef := Some (now + GRACE_MS) \<rparr>
      else st)"

text \<open>The callback given to \<open>setTimeout\<close>.\<close>

definition graceTimerCallback :: "HookState \<Rightarrow> HookState" where
  "graceTimerCallback st =
     (let st1 = (if \<not> refConnected st
                 then st\<lparr> connectionError := Some ''WebSocket connection failed'',
                          errorsReported := Suc (errorsReported st) \<rparr>
                 else st)
      in st1\<lparr> errorTimeoutRef := None \<rparr>)"

text \<open>
  The runtime at clock reading \<open>now\<close>: it runs the callback of a pending timer that is
  due, and does nothing when no timer is pending or the pending one is not due yet.
\<close>

definition timersAt :: "int \<Rightarrow> HookState \<Rightarrow> HookState" where
  "timersAt now st =
     (case errorTimeoutRef st of
        None \<Rightarrow> st
      | Some due \<Rightarrow> if due \<le> now then graceTimerCallback st else st)"

text \<open>The events of the hook, each with the clock reading at which it happens.\<close>

datatype HookEvent =
    Connect
  | Disconnect
  | Connected
  | SocketClosed
  | Disconnected
  | StompError "string option"
  | WebSocketError
  | Timers

fun hookStep :: "int \<times> HookEvent \<Rightarrow> HookState \<Rightarrow> HookState" where
  "hookStep (now, Connect) st = connect st"
| "hookStep (now, Disconnect) st = disconnect st"
| "hookStep (now, Connected) st = onConnect st"
| "hookStep (now, SocketClosed) st = socketClosed st"
| "hookStep (now, Disconnected) st = onDisconnect st"
| "hookStep (now, StompError msg) st = onStompError msg st"
| "hookStep (now, WebSocketError) st = onWebSocketError now st"
| "hookStep (now, Timers) st = timersAt now st"

definition hookRun :: "(int \<times> HookEvent) list \<Rightarrow> HookState \<Rightarrow> HookState" where
  "hookRun evs st = fold hookStep evs st"

section \<open>Properties of the reaction store\<close>

lemma sumPoints_fold: "fold (\<lambda>r sum. sum + points r) xs a = a + sum_list (map points xs)"
  by (induction xs arbitrary: a) simp_all

lemma sumPoints_sum_list: "sumPoints xs = sum_list (map points xs)"
  by (simp add: sumPoints_def sumPoints_fold)

text \<open>
  C1. In every state reachable by \<open>addReaction\<close>, \<open>setReactionsFromBackend\<close> and
  \<open>resetReactions\<close>, the glow is on exactly when one of the two scores is at least 5,
  the dominant type is confused when the confused score is at least 5, otherwise more
  when the more score is at least 5, otherwise null, and the intensity is 100 with the
  glow and 0 without.
\<close>

theorem reachable_glow_invariant:
  assumes "reachable s"
  shows "glowActive s = (confused (recentReactions s) \<ge> 5 \<or> more' (recentReactions s) \<ge> 5)
       \<and> dominantType s =
           (if confused (recentReactions s) \<ge> 5 then Some Confused
            else if more' (recentReactions s) \<ge> 5 then Some More
            else None)
       \<and> intensity s = (if glowActive s then 100 else 0)"
  using assms
proof (induction rule: reachable.induct)
  case reach_init
  show ?case by (simp add: initialState_def)
next
  case (reach_add s ty isRapidClick now)
  show ?case by (simp add: addReaction_def Let_def GLOW_THRESHOLD_def)
next
  case (reach_backend s c m)
  show ?case by (simp add: setReactionsFromBackend_def Let_def GLOW_THRESHOLD_def)
next
  case (reach_reset s)
  show ?case by (simp add: resetReactions_def)
qed

theorem reachable_glow_invariant_witness:
  "reachable (addReaction More True 1000 (setReactionsFromBackend 7 2 initialState))
   \<and> glowActive (addReaction More True 1000 (setReactionsFromBackend 7 2 initialState)) = False
   \<and> dominantType (addReaction More True 1000 (setReactionsFromBackend 7 2 initialState)) = None
   \<and> intensity (addReaction More True 1000 (setReactionsFromBackend 7 2 initialState)) = 0"
proof -
  have r: "reachable (addReaction More True 1000 (setReactionsFromBackend 7 2 initialState))"
    by (intro reach_add reach_backend reach_init)
  from reachable_glow_invariant [OF r] r show ?thesis
    by (simp add: addReaction_def setReactionsFromBackend_def initialState_def sumPoints_def
          SLIDING_WINDOW_MS_def GLOW_THRESHOLD_def Let_def)
qed

text \<open>
  C2. \<open>addReaction(type, isRapid)\<close> at time \<open>now\<close> keeps the events of the log that are
  younger than 30000 ms, in their order, and appends one event of the given type with
  timestamp \<open>now\<close> and 2 points for a rapid click, 1 otherwise: every event of age 30000 ms
  or more is gone and every younger one is kept. Each of the two scores is then the sum
  of the points of the events of that type in the new log.
\<close>

theorem addReaction_log_and_scores:
  "reactions (addReaction ty rapid now s) =
      filter (\<lambda>r. now - timestamp r < 30000) (reactions s)
        @ [\<lparr> rtype = ty, timestamp = now, points = (if rapid then 2 else 1) \<rparr>]
   \<and> (\<forall>r \<in> set (reactions s). now - timestamp r \<ge> 30000
          \<longrightarrow> r \<notin> set (reactions (addReaction ty rapid now s)))
   \<and> (\<forall>r \<in> set (reactions s). now - timestamp r < 30000
          \<longrightarrow> r \<in> set (reactions (addReaction ty rapid now s)))
   \<and> confused (recentReactions (addReaction ty rapid now s)) =
        sum_list (map points
          (filter (\<lambda>r. rtype r = Confused) (reactions (addReaction ty rapid now s))))
   \<and> more' (recentReactions (addReaction ty rapid now s)) =
        sum_list (map points
          (filter (\<lambda>r. rtype r = More) (reactions (addReaction ty rapid now s))))"
  by (auto simp: addReaction_def Let_def SLIDING_WINDOW_MS_def sumPoints_sum_list)

theorem addReaction_log_and_scores_witness:
  "reactions (addReaction More True 40000
      (initialState\<lparr> reactions :=
         [\<lparr> rtype = Confused, timestamp = 10000, points = 1 \<rparr>,
          \<lparr> rtype = More, timestamp = 20000, points = 2 \<rparr>] \<rparr>))
     = [\<lparr> rtype = More, timestamp = 20000, points = 2 \<rparr>,
        \<lparr> rtype = More, timestamp = 40000, points = 2 \<rparr>]
   \<and> recentReactions (addReaction More True 40000
      (initialState\<lparr> reactions :=
         [\<lparr> rtype = Confused, timestamp = 10000, points = 1 \<rparr>,
          \<lparr> rtype = More, timestamp = 20000, points = 2 \<rparr>] \<rparr>))
     = \<lparr> confused = 0, more' = 4 \<rparr>"
  using addReaction_log_and_scores [of More True 40000
      "initialState\<lparr> reactions :=
         [\<lparr> rtype = Confused, timestamp = 10000, points = 1 \<rparr>,
          \<lparr> rtype = More, timestamp = 20000, points = 2 \<rparr>] \<rparr>"]
  by (simp add: addReaction_def initialState_def SLIDING_WINDOW_MS_def GLOW_THRESHOLD_def
        sumPoints_def Let_def)

text \<open>
  C7. \<open>setReactionsFromBackend(confused, more)\<close> stores exactly the two given scores and
  derives the dominant type, the glow and the intensity from them by the threshold rule;
  the event log stays as it was, and the other fields do not depend on the prior state
  (two prior states \<open>s\<close> and \<open>t\<close> give results that differ in the log only). The
  snapshot (7, 2) gives the dominant type confused and the glow on, whatever the log.
\<close>

theorem setReactionsFromBackend_frame:
  "recentReactions (setReactionsFromBackend c m s) = \<lparr> confused = c, more' = m \<rparr>
   \<and> dominantType (setReactionsFromBackend c m s) =
        (if c \<ge> 5 then Some Confused else if m \<ge> 5 then Some More else None)
   \<and> glowActive (setReactionsFromBackend c m s) = (c \<ge> 5 \<or> m \<ge> 5)
   \<and> intensity (setReactionsFromBackend c m s) = (if c \<ge> 5 \<or> m \<ge> 5 then 100 else 0)
   \<and> reactions (setReactionsFromBackend c m s) = reactions s
   \<and> setReactionsFromBackend c m s = (setReactionsFromBackend c m t)\<lparr> reactions := reactions s \<rparr>
   \<and> dominantType (setReactionsFromBackend 7 2 s) = Some Confused
   \<and> glowActive (setReactionsFromBackend 7 2 s) = True"
  by (simp add: setReactionsFromBackend_def Let_def GLOW_THRESHOLD_def)

text \<open>
  C10. \<open>updateReactions(type, count, intensity)\<close> overwrites the score of the named type
  and leaves the other score and the event log alone; the stored intensity is 100 when
  the new scores light the glow and the given intensity otherwise, so it can be a value
  such as 15, while \<open>addReaction\<close>, \<open>setReactionsFromBackend\<close> and \<open>resetReactions\<close>
  only ever store 0 or 100.
\<close>

theorem updateReactions_frame:
  "recentReactions (updateReactions Confused count inten s) =
      \<lparr> confused = count, more' = more' (recentReactions s) \<rparr>
   \<and> recentReactions (updateReactions More count inten s) =
      \<lparr> confused = confused (recentReactions s), more' = count \<rparr>
   \<and> reactions (updateReactions ty count inten s) = reactions s
   \<and> glowActive (updateReactions ty count inten s) =
        (confused (recentReactions (updateReactions ty count inten s)) \<ge> 5
         \<or> more' (recentReactions (updateReactions ty count inten s)) \<ge> 5)
   \<and> intensity (updateReactions ty count inten s) =
        (if glowActive (updateReactions ty count inten s) then 100 else inten)
   \<and> intensity (updateReactions More 0 15 initialState) = 15
   \<and> (intensity (addReaction ty rapid now s) = 0 \<or> intensity (addReaction ty rapid now s) = 100)
   \<and> (intensity (setReactionsFromBackend c m s) = 0 \<or> intensity (setReactionsFromBackend c m s) = 100)
   \<and> intensity (resetReactions s) = 0"
  by (cases ty)
     (simp_all add: updateReactions_def addReaction_def setReactionsFromBackend_def
        resetReactions_def initialState_def Let_def GLOW_THRESHOLD_def)

section \<open>Properties of the audience page\<close>

lemma handleReaction_unfold:
  "handleReaction ty now sendFailed st =
     (st\<lparr> clickTimestamps := filter (\<lambda>ts. now - ts < 5000) (clickTimestamps st) @ [now],
          lastClickFeedback :=
            (if length (filter (\<lambda>ts. now - ts < 5000) (clickTimestamps st)) = 4
             then Some strongFeedbackText else lastClickFeedback st),
          errorLog :=
            (if sendFailed then errorLog st @ [''Failed to send reaction:''] else errorLog st) \<rparr>,
      \<lparr> isRapidClick = (4 \<le> length (filter (\<lambda>ts. now - ts < 5000) (clickTimestamps st))),
        strongFeedback = (length (filter (\<lambda>ts. now - ts < 5000) (clickTimestamps st)) = 4),
        haptic = (if 4 \<le> length (filter (\<lambda>ts. now - ts < 5000) (clickTimestamps st))
                  then [100, 50, 100] else [50]) \<rparr>)"
  by (auto simp: handleReaction_def Let_def)

lemma cleanup_then_click:
  assumes "now' \<le> now"
  shows "handleReaction ty now sendFailed (cleanupClickTimestamps now' st)
          = handleReaction ty now sendFailed st"
proof -
  have "filter (\<lambda>ts. now - ts < 5000) (filter (\<lambda>ts. now' - ts < 5000) (clickTimestamps st))
        = filter (\<lambda>ts. now - ts < 5000) (clickTimestamps st)"
    using assms by (auto intro: filter_cong)
  then show ?thesis
    by (simp add: handleReaction_unfold cleanupClickTimestamps_def)
qed

lemma clickOutcomes_one_window:
  assumes "clickTimestamps st = pre"
    and "\<forall>x \<in> set (pre @ ts). \<forall>y \<in> set ts. y - x < 5000"
  shows "clickOutcomes ty ts st =
           map (\<lambda>k. \<lparr> isRapidClick = (4 \<le> length pre + k),
                       strongFeedback = (length pre + k = 4),
                       haptic = (if 4 \<le> length pre + k then [100, 50, 100] else [50]) \<rparr>)
               [0..<length ts]"
  using assms
proof (induction ts arbitrary: st pre)
  case Nil
  show ?case by simp
next
  case (Cons t ts)
  have keep: "filter (\<lambda>x. t - x < 5000) (clickTimestamps st) = pre"
    using Cons.prems by (auto intro: filter_True)
  obtain st' out where h: "handleReaction ty t False st = (st', out)"
    by (cases "handleReaction ty t False st")
  from h keep have st': "clickTimestamps st' = pre @ [t]"
    and out: "out = \<lparr> isRapidClick = (4 \<le> length pre), strongFeedback = (length pre = 4),
                      haptic = (if 4 \<le> length pre then [100, 50, 100] else [50]) \<rparr>"
    by (auto simp: handleReaction_unfold)
  have "\<forall>x \<in> set ((pre @ [t]) @ ts). \<forall>y \<in> set ts. y - x < 5000"
    using Cons.prems(2) by auto
  from Cons.IH [OF st' this]
  have rest: "clickOutcomes ty ts st' =
           map (\<lambda>k. \<lparr> isRapidClick = (4 \<le> length pre + Suc k),
                       strongFeedback = (length pre + Suc k = 4),
                       haptic = (if 4 \<le> length pre + Suc k then [100, 50, 100] else [50]) \<rparr>)
               [0..<length ts]"
    by simp
  have "[0..<length (t # ts)] = 0 # map Suc [0..<length ts]"
    by (simp add: upt_conv_Cons map_Suc_upt del: upt_Suc)
  then show ?case
    using h out rest by (simp add: comp_def del: upt_Suc)
qed

text \<open>
  C3 (as the code has it). The two components are separate: \<open>handleReaction\<close> does not
  call \<open>addReaction\<close>, and the store takes the rapid flag as an argument. From an empty
  event log, \<open>addReaction('confused', false)\<close> at 0, 1, 2 and 3 s gives the confused score
  4 with the glow off, and a fifth such call at 4 s gives the score 5 with the glow on
  and the dominant type confused. From an empty click window, \<open>handleReaction\<close> on clicks
  at the same five times shows the strong feedback exactly once, on the fifth click, the
  only one of the five it classifies as rapid.
\<close>

theorem five_clicks_scenario:
  "confused (recentReactions
      (addReaction Confused False 3000
        (addReaction Confused False 2000
        (addReaction Confused False 1000
        (addReaction Confused False 0 initialState))))) = 4
   \<and> glowActive
      (addReaction Confused False 3000
        (addReaction Confused False 2000
        (addReaction Confused False 1000
        (addReaction Confused False 0 initialState)))) = False
   \<and> confused (recentReactions
      (addReaction Confused False 4000
        (addReaction Confused False 3000
        (addReaction Confused False 2000
        (addReaction Confused False 1000
        (addReaction Confused False 0 initialState)))))) = 5
   \<and> glowActive
      (addReaction Confused False 4000
        (addReaction Confused False 3000
        (addReaction Confused False 2000
        (addReaction Confused False 1000
        (addReaction Confused False 0 initialState))))) = True
   \<and> dominantType
      (addReaction Confused False 4000
        (addReaction Confused False 3000
        (addReaction Confused False 2000
        (addReaction Confused False 1000
        (addReaction Confused False 0 initialState))))) = Some Confused
   \<and> map strongFeedback (clickOutcomes Confused [0, 1000, 2000, 3000] initialAudienceState)
        = [False, False, False, False]
   \<and> map strongFeedback (clickOutcomes Confused [0, 1000, 2000, 3000, 4000] initialAudienceState)
        = [False, False, False, False, True]
   \<and> map isRapidClick (clickOutcomes Confused [0, 1000, 2000, 3000, 4000] initialAudienceState)
        = [False, False, False, False, True]"
  by code_simp

text \<open>
  With each reaction recorded under the flag that \<open>handleReaction\<close> computes for the same
  click, the fifth reaction counts 2 points and the confused score after it is not 5.
\<close>

theorem five_clicks_score_counterexample:
  "confused (recentReactions
      (addReaction Confused (isRapidClick ((clickOutcomes Confused [0, 1000, 2000, 3000, 4000] initialAudienceState) ! 4)) 4000
        (addReaction Confused (isRapidClick ((clickOutcomes Confused [0, 1000, 2000, 3000, 4000] initialAudienceState) ! 3)) 3000
        (addReaction Confused (isRapidClick ((clickOutcomes Confused [0, 1000, 2000, 3000, 4000] initialAudienceState) ! 2)) 2000
        (addReaction Confused (isRapidClick ((clickOutcomes Confused [0, 1000, 2000, 3000, 4000] initialAudienceState) ! 1)) 1000
        (addReaction Confused (isRapidClick ((clickOutcomes Confused [0, 1000, 2000, 3000, 4000] initialAudienceState) ! 0)) 0 initialState)))))) \<noteq> 5"
  by code_simp

text \<open>
  C4 (as the code has it). On every click \<open>handleReaction\<close> keeps the click timestamps
  of age below 5000 ms and appends the current one; \<open>isRapidClick\<close> holds exactly when
  that list has at least 5 entries, and the strong feedback is shown exactly when it has
  5. A click that finds 5 or more clicks still in the window is rapid and shows no
  feedback. The cleanup interval, run at an earlier time, changes nothing of this. For
  clicks that all lie within one window, starting from an empty one, the clicks from the
  fifth on are rapid and only the fifth shows the feedback.
\<close>

theorem burst_classifier:
  "clickTimestamps (fst (handleReaction ty now sendFailed st))
      = filter (\<lambda>ts. now - ts < 5000) (clickTimestamps st) @ [now]
   \<and> isRapidClick (snd (handleReaction ty now sendFailed st))
      = (5 \<le> length (clickTimestamps (fst (handleReaction ty now sendFailed st))))
   \<and> strongFeedback (snd (handleReaction ty now sendFailed st))
      = (length (clickTimestamps (fst (handleReaction ty now sendFailed st))) = 5)
   \<and> (5 \<le> length (filter (\<lambda>ts. now - ts < 5000) (clickTimestamps st))
        \<longrightarrow> isRapidClick (snd (handleReaction ty now sendFailed st))
            \<and> \<not> strongFeedback (snd (handleReaction ty now sendFailed st)))
   \<and> (now' \<le> now
        \<longrightarrow> handleReaction ty now sendFailed (cleanupClickTimestamps now' st)
            = handleReaction ty now sendFailed st)
   \<and> ((\<forall>x \<in> set ts. \<forall>y \<in> set ts. y - x < 5000)
        \<longrightarrow> map isRapidClick (clickOutcomes ty ts initialAudienceState)
              = map (\<lambda>k. 4 \<le> k) [0..<length ts]
          \<and> map strongFeedback (clickOutcomes ty ts initialAudienceState)
              = map (\<lambda>k. k = 4) [0..<length ts])"
proof -
  have a1: "clickTimestamps (fst (handleReaction ty now sendFailed st))
      = filter (\<lambda>ts. now - ts < 5000) (clickTimestamps st) @ [now]"
    by (simp add: handleReaction_unfold)
  have a2: "isRapidClick (snd (handleReaction ty now sendFailed st))
      = (5 \<le> length (clickTimestamps (fst (handleReaction ty now sendFailed st))))"
    by (auto simp: handleReaction_unfold)
  have a3: "strongFeedback (snd (handleReaction ty now sendFailed st))
      = (length (clickTimestamps (fst (handleReaction ty now sendFailed st))) = 5)"
    by (auto simp: handleReaction_unfold)
  have a4: "5 \<le> length (filter (\<lambda>ts. now - ts < 5000) (clickTimestamps st))
        \<longrightarrow> isRapidClick (snd (handleReaction ty now sendFailed st))
            \<and> \<not> strongFeedback (snd (handleReaction ty now sendFailed st))"
    by (simp add: handleReaction_unfold)
  have b: "now' \<le> now
        \<longrightarrow> handleReaction ty now sendFailed (cleanupClickTimestamps now' st)
            = handleReaction ty now sendFailed st"
    by (simp add: cleanup_then_click)
  have "clickTimestamps initialAudienceState = []"
    by (simp add: initialAudienceState_def)
  from clickOutcomes_one_window [OF this, of ts ty]
  have c: "(\<forall>x \<in> set ts. \<forall>y \<in> set ts. y - x < 5000)
        \<longrightarrow> map isRapidClick (clickOutcomes ty ts initialAudienceState)
              = map (\<lambda>k. 4 \<le> k) [0..<length ts]
          \<and> map strongFeedback (clickOutcomes ty ts initialAudienceState)
              = map (\<lambda>k. k = 4) [0..<length ts]"
    by (simp add: comp_def)
  show ?thesis
    by (rule conjI [OF a1 conjI [OF a2 conjI [OF a3 conjI [OF a4 conjI [OF b c]]]]])
qed

theorem burst_classifier_witness:
  "map isRapidClick (clickOutcomes More [0, 1000, 2000, 3000, 4000, 4500] initialAudienceState)
      = [False, False, False, False, True, True]
   \<and> map strongFeedback (clickOutcomes More [0, 1000, 2000, 3000, 4000, 4500] initialAudienceState)
      = [False, False, False, False, True, False]
   \<and> isRapidClick (snd (handleReaction More 4500 False
        (initialAudienceState\<lparr> clickTimestamps := [0, 1000, 2000, 3000, 4000] \<rparr>)))
   \<and> \<not> strongFeedback (snd (handleReaction More 4500 False
        (initialAudienceState\<lparr> clickTimestamps := [0, 1000, 2000, 3000, 4000] \<rparr>)))
   \<and> handleReaction More 4500 False
        (cleanupClickTimestamps 4200
           (initialAudienceState\<lparr> clickTimestamps := [-900, 1000, 2000, 3000, 4000] \<rparr>))
      = handleReaction More 4500 False
           (initialAudienceState\<lparr> clickTimestamps := [-900, 1000, 2000, 3000, 4000] \<rparr>)"
  using burst_classifier [of More 4500 False
          "initialAudienceState\<lparr> clickTimestamps := [0, 1000, 2000, 3000, 4000] \<rparr>"
          4200 "[0, 1000, 2000, 3000, 4000, 4500]"]
        burst_classifier [of More 4500 False
          "initialAudienceState\<lparr> clickTimestamps := [-900, 1000, 2000, 3000, 4000] \<rparr>"
          4200 "[]"]
  by (simp add: initialAudienceState_def upt_rec)

text \<open>
  The feedback is not limited to the click on which the count first reaches 5. At one
  click per second each click from the sixth on evicts one timestamp and finds four in
  the window, so the count is 5 again: \<open>isRapidClick\<close> stays true from the fifth click
  on, and the strong feedback is shown on every one of these clicks.
\<close>

theorem burst_feedback_refires_counterexample:
  "map isRapidClick
     (clickOutcomes Confused [0, 1000, 2000, 3000, 4000, 5000, 6000, 7000, 8000, 9000]
        initialAudienceState)
     = [False, False, False, False, True, True, True, True, True, True]
   \<and> map strongFeedback
     (clickOutcomes Confused [0, 1000, 2000, 3000, 4000, 5000, 6000, 7000, 8000, 9000]
        initialAudienceState)
     = [False, False, False, False, True, True, True, True, True, True]"
  by code_simp

subsection \<open>Submitting a question\<close>

lemma toString_example: "toString 1234 = [49, 50, 51, 52] \<and> toString (- 7) = [45, 55]"
  by code_simp

lemma trim_example: "trim [32, 9, 104, 105, 32, 63, 10, 160] = [104, 105, 32, 63]"
  by (simp add: trim_def isWhiteSpace_def)

text \<open>
  C8. When the trimmed question text is not empty and \<open>createQuestion\<close> fails,
  \<open>handleSubmitQuestion\<close> still puts a record with the trimmed text in front of the sent
  questions, clears the input field and resets \<open>isSubmitting\<close>, exactly as it does when
  the request succeeds; the only difference is one logged error. The handler returns a
  state in every case: the failure is caught. The same holds for the part of the handler
  that runs once the request has settled, on whatever the state is by then.
\<close>

theorem submit_question_failure_keeps_local_record:
  assumes "trim (question st) \<noteq> []" and "createQuestion http = Inl err"
  shows "handleSubmitQuestion http idNow tsNow st =
           st\<lparr> sentQuestions :=
                  \<lparr> id' = toString idNow, text' = trim (question st), timestamp' = tsNow \<rparr>
                    # sentQuestions st,
                question := [],
                isSubmitting := False,
                errorLog := errorLog st @ [''Failed to send question:''] \<rparr>
       \<and> (createQuestion http' = Inr q \<longrightarrow>
            handleSubmitQuestion http' idNow tsNow st =
              st\<lparr> sentQuestions :=
                     \<lparr> id' = toString idNow, text' = trim (question st), timestamp' = tsNow \<rparr>
                       # sentQuestions st,
                   question := [],
                   isSubmitting := False \<rparr>)
       \<and> sentQuestions (submitQuestionSettle (Inl err) txt idNow tsNow st') =
            \<lparr> id' = toString idNow, text' = txt, timestamp' = tsNow \<rparr> # sentQuestions st'
       \<and> question (submitQuestionSettle (Inl err) txt idNow tsNow st') = []
       \<and> errorLog (submitQuestionSettle (Inl err) txt idNow tsNow st') =
            errorLog st' @ [''Failed to send question:'']"
  using assms
  by (simp add: handleSubmitQuestion_def submitQuestionBegin_def submitQuestionSettle_def Let_def)

theorem submit_question_failure_keeps_local_record_witness:
  "trim (question (initialAudienceState\<lparr> question := [32, 104, 105, 63, 32] \<rparr>)) = [104, 105, 63]
   \<and> createQuestion NoResponse = Inl FetchRejected
   \<and> createQuestion (Response True (Some \<lparr> questionId = 1, content = [104, 105, 63], createdAt = [] \<rparr>))
        = Inr \<lparr> questionId = 1, content = [104, 105, 63], createdAt = [] \<rparr>
   \<and> handleSubmitQuestion NoResponse 1700000000000 1700000000001
        (initialAudienceState\<lparr> question := [32, 104, 105, 63, 32] \<rparr>)
      = initialAudienceState
          \<lparr> sentQuestions :=
               [\<lparr> id' = toString 1700000000000, text' = [104, 105, 63],
                  timestamp' = 1700000000001 \<rparr>],
            errorLog := [''Failed to send question:''] \<rparr>
   \<and> handleSubmitQuestion
        (Response True (Some \<lparr> questionId = 1, content = [104, 105, 63], createdAt = [] \<rparr>))
        1700000000000 1700000000001
        (initialAudienceState\<lparr> question := [32, 104, 105, 63, 32] \<rparr>)
      = initialAudienceState
          \<lparr> sentQuestions :=
               [\<lparr> id' = toString 1700000000000, text' = [104, 105, 63],
                  timestamp' = 1700000000001 \<rparr>] \<rparr>"
proof -
  have t: "trim (question (initialAudienceState\<lparr> question := [32, 104, 105, 63, 32] \<rparr>))
            = [104, 105, 63]"
    by (simp add: trim_def isWhiteSpace_def)
  then have ne: "trim (question (initialAudienceState\<lparr> question := [32, 104, 105, 63, 32] \<rparr>)) \<noteq> []"
    by simp
  have f: "createQuestion NoResponse = Inl FetchRejected"
    by simp
  show ?thesis
    using submit_question_failure_keeps_local_record
            [OF ne f, of 1700000000000 1700000000001
               "Response True (Some \<lparr> questionId = 1, content = [104, 105, 63], createdAt = [] \<rparr>)"
               "\<lparr> questionId = 1, content = [104, 105, 63], createdAt = [] \<rparr>"]
          t
    by (simp add: initialAudienceState_def)
qed

section \<open>Properties of the live channel\<close>

text \<open>
  C5. For every message that parses, the scores handed to \<open>setReactionsFromBackend\<close> are:
  confused is \<open>reactionCounts.CONFUSED\<close> when present, else \<open>confusedCount\<close> when present,
  else 0; more is \<open>reactionCounts.MORE\<close> when present, else \<open>moreCount\<close> when present,
  else 0. The message with an empty \<open>reactionCounts\<close> and no legacy field gives (0, 0).
\<close>

theorem reaction_message_normalization:
  assumes "JSON_parse body = Some data"
  shows "onReactionMessage JSON_parse body (store, log) =
     (setReactionsFromBackend
        (case reactionCounts data of
           None \<Rightarrow> (case confusedCount data of None \<Rightarrow> 0 | Some n \<Rightarrow> n)
         | Some rc \<Rightarrow>
             (case CONFUSED rc of
                None \<Rightarrow> (case confusedCount data of None \<Rightarrow> 0 | Some n \<Rightarrow> n)
              | Some n \<Rightarrow> n))
        (case reactionCounts data of
           None \<Rightarrow> (case moreCount data of None \<Rightarrow> 0 | Some n \<Rightarrow> n)
         | Some rc \<Rightarrow>
             (case MORE rc of
                None \<Rightarrow> (case moreCount data of None \<Rightarrow> 0 | Some n \<Rightarrow> n)
              | Some n \<Rightarrow> n))
        store, log)
   \<and> (reactionCounts data = Some \<lparr> CONFUSED = None, MORE = None \<rparr>
        \<and> confusedCount data = None \<and> moreCount data = None
      \<longrightarrow> onReactionMessage JSON_parse body (store, log)
            = (setReactionsFromBackend 0 0 store, log))"
  using assms
  by (simp add: onReactionMessage_def nullish_def optCONFUSED_def optMORE_def Let_def
        split: option.splits)

theorem reaction_message_normalization_witness:
  "onReactionMessage
      (\<lambda>b. Some \<lparr> sessionId = ''s1'',
                   reactionCounts = Some \<lparr> CONFUSED = None, MORE = None \<rparr>,
                   confusedCount = None, moreCount = None, msgTimestamp = None \<rparr>)
      ''{reactionCounts:{}}'' (initialState, [])
     = (setReactionsFromBackend 0 0 initialState, [])
   \<and> onReactionMessage
      (\<lambda>b. Some \<lparr> sessionId = ''s1'',
                   reactionCounts = Some \<lparr> CONFUSED = Some 7, MORE = None \<rparr>,
                   confusedCount = Some 3, moreCount = Some 2, msgTimestamp = None \<rparr>)
      ''{}'' (initialState, [])
     = (setReactionsFromBackend 7 2 initialState, [])"
  using reaction_message_normalization
          [of "\<lambda>b. Some \<lparr> sessionId = ''s1'',
                   reactionCounts = Some \<lparr> CONFUSED = None, MORE = None \<rparr>,
                   confusedCount = None, moreCount = None, msgTimestamp = None \<rparr>"
              "''{reactionCounts:{}}''"
              "\<lparr> sessionId = ''s1'',
                 reactionCounts = Some \<lparr> CONFUSED = None, MORE = None \<rparr>,
                 confusedCount = None, moreCount = None, msgTimestamp = None \<rparr>"
              initialState "[]"]
        reaction_message_normalization
          [of "\<lambda>b. Some \<lparr> sessionId = ''s1'',
                   reactionCounts = Some \<lparr> CONFUSED = Some 7, MORE = None \<rparr>,
                   confusedCount = Some 3, moreCount = Some 2, msgTimestamp = None \<rparr>"
              "''{}''"
              "\<lparr> sessionId = ''s1'',
                 reactionCounts = Some \<lparr> CONFUSED = Some 7, MORE = None \<rparr>,
                 confusedCount = Some 3, moreCount = Some 2, msgTimestamp = None \<rparr>"
              initialState "[]"]
  by simp

lemma deliver_store_log_independent:
  "fst (deliver JSON_parse bodies (store, log1)) = fst (deliver JSON_parse bodies (store, log2))"
proof (induction bodies arbitrary: store log1 log2)
  case Nil
  show ?case by (simp add: deliver_def)
next
  case (Cons b bs)
  show ?case
  proof (cases "JSON_parse b")
    case None
    then show ?thesis
      using Cons.IH [of store "log1 @ [''[WebSocket] Failed to parse message:'']"
                        "log2 @ [''[WebSocket] Failed to parse message:'']"]
      by (simp add: deliver_def onReactionMessage_def)
  next
    case (Some data)
    then show ?thesis
      using Cons.IH by (simp add: deliver_def onReactionMessage_def Let_def)
  qed
qed

text \<open>
  C6. A message whose body does not parse leaves the reaction store as it is: the
  callback only logs the error and returns, without calling \<open>setReactionsFromBackend\<close>.
  The subscription goes on: the store after a sequence of messages is the same with the
  malformed message in the sequence as without it.
\<close>

theorem malformed_message_dropped:
  assumes "JSON_parse body = None"
  shows "onReactionMessage JSON_parse body (store, log)
           = (store, log @ [''[WebSocket] Failed to parse message:''])
       \<and> fst (deliver JSON_parse (earlier @ body # later) (store, log))
           = fst (deliver JSON_parse (earlier @ later) (store, log))"
proof -
  have one: "onReactionMessage JSON_parse body (store, log)
           = (store, log @ [''[WebSocket] Failed to parse message:''])" for store log
    using assms by (simp add: onReactionMessage_def)
  obtain s1 l1 where mid: "deliver JSON_parse earlier (store, log) = (s1, l1)"
    by (cases "deliver JSON_parse earlier (store, log)")
  have "deliver JSON_parse (earlier @ body # later) (store, log)
        = deliver JSON_parse later (s1, l1 @ [''[WebSocket] Failed to parse message:''])"
    using mid one [of s1 l1] by (simp add: deliver_def)
  moreover have "deliver JSON_parse (earlier @ later) (store, log)
        = deliver JSON_parse later (s1, l1)"
    using mid by (simp add: deliver_def)
  ultimately show ?thesis
    using one [of store log] deliver_store_log_independent [of JSON_parse later s1] by simp
qed

theorem malformed_message_dropped_witness:
  "(\<lambda>b. if b = ''{'' then None
         else Some \<lparr> sessionId = ''s1'', reactionCounts = None,
                     confusedCount = Some 7, moreCount = Some 2, msgTimestamp = None \<rparr>) ''{''
     = None
   \<and> onReactionMessage
        (\<lambda>b. if b = ''{'' then None
              else Some \<lparr> sessionId = ''s1'', reactionCounts = None,
                          confusedCount = Some 7, moreCount = Some 2, msgTimestamp = None \<rparr>)
        ''{'' (initialState, [])
     = (initialState, [''[WebSocket] Failed to parse message:''])
   \<and> fst (deliver
        (\<lambda>b. if b = ''{'' then None
              else Some \<lparr> sessionId = ''s1'', reactionCounts = None,
                          confusedCount = Some 7, moreCount = Some 2, msgTimestamp = None \<rparr>)
        ([] @ ''{'' # [''{}'']) (initialState, []))
     = setReactionsFromBackend 7 2 initialState"
  using malformed_message_dropped
          [of "\<lambda>b. if b = ''{'' then None
                   else Some \<lparr> sessionId = ''s1'', reactionCounts = None,
                               confusedCount = Some 7, moreCount = Some 2, msgTimestamp = None \<rparr>"
              "''{''" initialState "[]" "[]" "[''{}'']"]
  by (simp add: deliver_def onReactionMessage_def nullish_def optCONFUSED_def optMORE_def)

subsection \<open>The grace timer\<close>

lemma hookRun_snoc: "hookRun (evs @ [e]) st = hookStep e (hookRun evs st)"
  by (simp add: hookRun_def)

lemma timer_origin:
  assumes "errorTimeoutRef st0 = None"
  shows "errorTimeoutRef (hookRun evs st0) = Some due \<Longrightarrow>
         \<exists>pre t post. evs = pre @ (t, WebSocketError) # post \<and> due = t + 10000
            \<and> (\<forall>e \<in> set post. snd e \<noteq> Connected \<and> snd e \<noteq> Disconnect)"
proof (induction evs arbitrary: due rule: rev_induct)
  case Nil
  then show ?case using assms by (simp add: hookRun_def)
next
  case (snoc x evs)
  obtain now ev where x: "x = (now, ev)" by (cases x)
  let ?s = "hookRun evs st0"
  have keep: "\<exists>pre t post. evs @ [x] = pre @ (t, WebSocketError) # post \<and> due = t + 10000
            \<and> (\<forall>e \<in> set post. snd e \<noteq> Connected \<and> snd e \<noteq> Disconnect)"
    if old: "errorTimeoutRef ?s = Some due" and ok: "ev \<noteq> Connected" "ev \<noteq> Disconnect"
  proof -
    from snoc.IH [OF old] obtain pre t post where
      e: "evs = pre @ (t, WebSocketError) # post" and d: "due = t + 10000"
      and p: "\<forall>e \<in> set post. snd e \<noteq> Connected \<and> snd e \<noteq> Disconnect"
      by blast
    have "evs @ [x] = pre @ (t, WebSocketError) # (post @ [x])"
      using e by simp
    moreover have "\<forall>e \<in> set (post @ [x]). snd e \<noteq> Connected \<and> snd e \<noteq> Disconnect"
      using p ok x by simp
    ultimately show ?thesis using d by blast
  qed
  from snoc.prems have new: "errorTimeoutRef (hookStep (now, ev) ?s) = Some due"
    by (simp add: hookRun_snoc x)
  show ?case
  proof (cases ev)
    case Connect
    with new have "errorTimeoutRef ?s = Some due"
      by (simp add: connect_def split: if_splits)
    then show ?thesis using keep Connect by simp
  next
    case Disconnect
    with new show ?thesis
      by (simp add: disconnect_def Let_def split: option.splits)
  next
    case Connected
    with new show ?thesis by (simp add: onConnect_def)
  next
    case SocketClosed
    with new have "errorTimeoutRef ?s = Some due" by (simp add: socketClosed_def)
    then show ?thesis using keep SocketClosed by simp
  next
    case Disconnected
    with new have "errorTimeoutRef ?s = Some due" by (simp add: onDisconnect_def)
    then show ?thesis using keep Disconnected by simp
  next
    case (StompError msg)
    with new have "errorTimeoutRef ?s = Some due" by (simp add: onStompError_def)
    then show ?thesis using keep StompError by simp
  next
    case WebSocketError
    show ?thesis
    proof (cases "errorTimeoutRef ?s = None \<and> \<not> refConnected ?s")
      case True
      with new WebSocketError have "due = now + 10000"
        by (simp add: onWebSocketError_def GRACE_MS_def)
      then have "evs @ [x] = evs @ (now, WebSocketError) # [] \<and> due = now + 10000
            \<and> (\<forall>e \<in> set []. snd e \<noteq> Connected \<and> snd e \<noteq> Disconnect)"
        using x WebSocketError by simp
      then show ?thesis by blast
    next
      case False
      with new WebSocketError have "errorTimeoutRef ?s = Some due"
        by (auto simp: onWebSocketError_def)
      then show ?thesis using keep WebSocketError by simp
    qed
  next
    case Timers
    with new have "errorTimeoutRef ?s = Some due"
      by (auto simp: timersAt_def graceTimerCallback_def Let_def split: option.splits if_splits)
    then show ?thesis using keep Timers by simp
  qed
qed

lemma error_only_from_timer:
  assumes "connectionError (hookStep (now, ev) st) \<noteq> connectionError st"
    and "connectionError (hookStep (now, ev) st) \<noteq> None"
    and "\<forall>msg. ev \<noteq> StompError msg"
  shows "ev = Timers \<and> \<not> refConnected st \<and> (\<exists>due. errorTimeoutRef st = Some due \<and> due \<le> now)
         \<and> connectionError (hookStep (now, ev) st) = Some ''WebSocket connection failed''"
  using assms
  by (cases ev)
     (auto simp: connect_def disconnect_def onConnect_def socketClosed_def onDisconnect_def
        onWebSocketError_def timersAt_def graceTimerCallback_def Let_def
        split: option.splits if_splits)

text \<open>
  C9. \<open>onWebSocketError\<close> never changes \<open>connectionError\<close>: when no timer is pending and
  the client is unconnected it starts a timer due 10000 ms later, and otherwise it does
  nothing. \<open>onConnect\<close> cancels the timer and clears the error, and no timer runs
  afterwards. Over any run of the hook that starts without a pending timer: when an
  event other than a STOMP error makes a connection error visible, that event is the
  grace timer firing, with the client unconnected, at least 10000 ms after a transport
  error since which no connection succeeded and the hook was not torn down.
\<close>

theorem transport_error_grace_period:
  "connectionError (onWebSocketError now st) = connectionError st
   \<and> (errorTimeoutRef st = None \<and> \<not> refConnected st
        \<longrightarrow> errorTimeoutRef (onWebSocketError now st) = Some (now + 10000))
   \<and> (\<not> (errorTimeoutRef st = None \<and> \<not> refConnected st)
        \<longrightarrow> onWebSocketError now st = st)
   \<and> errorTimeoutRef (onConnect st) = None
   \<and> connectionError (onConnect st) = None
   \<and> timersAt later (onConnect st) = onConnect st
   \<and> (errorTimeoutRef st0 = None
        \<and> connectionError (hookRun (evs @ [(at, ev)]) st0) \<noteq> connectionError (hookRun evs st0)
        \<and> connectionError (hookRun (evs @ [(at, ev)]) st0) \<noteq> None
        \<and> (\<forall>msg. ev \<noteq> StompError msg)
      \<longrightarrow> ev = Timers
          \<and> connectionError (hookRun (evs @ [(at, ev)]) st0) = Some ''WebSocket connection failed''
          \<and> \<not> refConnected (hookRun evs st0)
          \<and> (\<exists>pre t post. evs = pre @ (t, WebSocketError) # post \<and> t + 10000 \<le> at
                \<and> (\<forall>e \<in> set post. snd e \<noteq> Connected \<and> snd e \<noteq> Disconnect)))"
proof -
  have a: "connectionError (onWebSocketError now st) = connectionError st"
    by (simp add: onWebSocketError_def)
  have b: "errorTimeoutRef st = None \<and> \<not> refConnected st
        \<longrightarrow> errorTimeoutRef (onWebSocketError now st) = Some (now + 10000)"
    by (simp add: onWebSocketError_def GRACE_MS_def)
  have c: "\<not> (errorTimeoutRef st = None \<and> \<not> refConnected st)
        \<longrightarrow> onWebSocketError now st = st"
    by (simp add: onWebSocketError_def)
  have d: "errorTimeoutRef (onConnect st) = None"
    by (simp add: onConnect_def)
  have e: "connectionError (onConnect st) = None"
    by (simp add: onConnect_def)
  have f: "timersAt later (onConnect st) = onConnect st"
    by (simp add: timersAt_def onConnect_def)
  have g: "errorTimeoutRef st0 = None
        \<and> connectionError (hookRun (evs @ [(at, ev)]) st0) \<noteq> connectionError (hookRun evs st0)
        \<and> connectionError (hookRun (evs @ [(at, ev)]) st0) \<noteq> None
        \<and> (\<forall>msg. ev \<noteq> StompError msg)
      \<longrightarrow> ev = Timers
          \<and> connectionError (hookRun (evs @ [(at, ev)]) st0) = Some ''WebSocket connection failed''
          \<and> \<not> refConnected (hookRun evs st0)
          \<and> (\<exists>pre t post. evs = pre @ (t, WebSocketError) # post \<and> t + 10000 \<le> at
                \<and> (\<forall>e \<in> set post. snd e \<noteq> Connected \<and> snd e \<noteq> Disconnect))"
  proof (intro impI, elim conjE)
    assume t0: "errorTimeoutRef st0 = None"
      and ch: "connectionError (hookRun (evs @ [(at, ev)]) st0) \<noteq> connectionError (hookRun evs st0)"
      and ne: "connectionError (hookRun (evs @ [(at, ev)]) st0) \<noteq> None"
      and ns: "\<forall>msg. ev \<noteq> StompError msg"
    have ch': "connectionError (hookStep (at, ev) (hookRun evs st0)) \<noteq> connectionError (hookRun evs st0)"
      using ch unfolding hookRun_snoc .
    have ne': "connectionError (hookStep (at, ev) (hookRun evs st0)) \<noteq> None"
      using ne unfolding hookRun_snoc .
    note r = error_only_from_timer [OF ch' ne' ns]
    from r have ev: "ev = Timers" by (rule conjunct1)
    from r have nc: "\<not> refConnected (hookRun evs st0)" by blast
    from r have msg: "connectionError (hookRun (evs @ [(at, ev)]) st0) = Some ''WebSocket connection failed''"
      unfolding hookRun_snoc by blast
    from r have due: "\<exists>due. errorTimeoutRef (hookRun evs st0) = Some due \<and> due \<le> at"
      by blast
    from due obtain due where d1: "errorTimeoutRef (hookRun evs st0) = Some due" and d2: "due \<le> at"
      by blast
    from timer_origin [OF t0 d1] obtain pre t post where
      "evs = pre @ (t, WebSocketError) # post" "due = t + 10000"
      "\<forall>e \<in> set post. snd e \<noteq> Connected \<and> snd e \<noteq> Disconnect"
      by blast
    with d2 have "\<exists>pre t post. evs = pre @ (t, WebSocketError) # post \<and> t + 10000 \<le> at
                \<and> (\<forall>e \<in> set post. snd e \<noteq> Connected \<and> snd e \<noteq> Disconnect)"
      by blast
    with ev nc msg show "ev = Timers
          \<and> connectionError (hookRun (evs @ [(at, ev)]) st0) = Some ''WebSocket connection failed''
          \<and> \<not> refConnected (hookRun evs st0)
          \<and> (\<exists>pre t post. evs = pre @ (t, WebSocketError) # post \<and> t + 10000 \<le> at
                \<and> (\<forall>e \<in> set post. snd e \<noteq> Connected \<and> snd e \<noteq> Disconnect))"
      by blast
  qed
  show ?thesis
    by (rule conjI [OF a conjI [OF b conjI [OF c conjI [OF d conjI [OF e conjI [OF f g]]]]]])
qed

lemma grace_run_example: "hookRun [(0, Connect), (100, WebSocketError), (5100, WebSocketError)] initialHookState
   = \<lparr> clientRef = Some \<lparr> active = True, connected = False \<rparr>, errorTimeoutRef = Some 10100,
       isConnected = False, connectionError = None, errorsReported = 0 \<rparr>"
  by (simp add: hookRun_def initialHookState_def connect_def refActive_def refConnected_def
        onWebSocketError_def GRACE_MS_def)

theorem transport_error_grace_period_witness:
  "errorTimeoutRef (connect initialHookState) = None
   \<and> \<not> refConnected (connect initialHookState)
   \<and> connectionError (onWebSocketError 100 (connect initialHookState)) = None
   \<and> errorTimeoutRef (onWebSocketError 100 (connect initialHookState)) = Some 10100
   \<and> onWebSocketError 5100 (onWebSocketError 100 (connect initialHookState))
        = onWebSocketError 100 (connect initialHookState)
   \<and> timersAt 10100 (onConnect (onWebSocketError 100 (connect initialHookState)))
        = onConnect (onWebSocketError 100 (connect initialHookState))
   \<and> connectionError (onConnect (onWebSocketError 100 (connect initialHookState))) = None
   \<and> connectionError
        (hookRun [(0, Connect), (100, WebSocketError), (5100, WebSocketError)] initialHookState)
        = None
   \<and> connectionError
        (hookRun ([(0, Connect), (100, WebSocketError), (5100, WebSocketError)] @ [(10100, Timers)])
           initialHookState)
        = Some ''WebSocket connection failed''
   \<and> (\<exists>pre t post.
         [(0::int, Connect), (100, WebSocketError), (5100, WebSocketError)]
           = pre @ (t, WebSocketError) # post
         \<and> t + 10000 \<le> 10100
         \<and> (\<forall>e \<in> set post. snd e \<noteq> Connected \<and> snd e \<noteq> Disconnect))"
proof -
  have st: "connect initialHookState
      = \<lparr> clientRef = Some \<lparr> active = True, connected = False \<rparr>, errorTimeoutRef = None,
          isConnected = False, connectionError = None, errorsReported = 0 \<rparr>"
    by (simp add: initialHookState_def connect_def refActive_def)
  have r4: "hookRun ([(0, Connect), (100, WebSocketError), (5100, WebSocketError)] @ [(10100, Timers)])
           initialHookState
    = \<lparr> clientRef = Some \<lparr> active = True, connected = False \<rparr>, errorTimeoutRef = None,
        isConnected = False, connectionError = Some ''WebSocket connection failed'',
        errorsReported = 1 \<rparr>"
    unfolding hookRun_snoc grace_run_example
    by (simp add: timersAt_def graceTimerCallback_def refConnected_def)
  have i0: "errorTimeoutRef initialHookState = None"
    by (simp add: initialHookState_def)
  note A = transport_error_grace_period
      [of 100 "connect initialHookState" 10100 initialHookState
          "[(0, Connect), (100, WebSocketError), (5100, WebSocketError)]" 10100 Timers]
  note B = transport_error_grace_period
      [of 5100 "onWebSocketError 100 (connect initialHookState)" 10100 initialHookState
          "[(0, Connect), (100, WebSocketError), (5100, WebSocketError)]" 10100 Timers]
  show ?thesis
    using A B i0 unfolding r4 grace_run_example st
    by (simp add: refConnected_def onWebSocketError_def GRACE_MS_def)
qed

end
